theory Spec2Isabelle
  imports Main "HOL-Library.Word" "HOL-Library.Signed_Division"
begin

unbundle bit_operations_syntax

section \<open>The telemetry sampler of pacsat\_telem\<close>

text \<open>
  The development embeds \<^verbatim>\<open>src/telem_main.c\<close> and \<^verbatim>\<open>inc/pacsat_telem.h\<close>.

  \<^item> \<^verbatim>\<open>time_t\<close> values are mathematical integers. The machine type is a signed integer;
    overflow of a signed subtraction is undefined in C, so the model agrees with the
    program wherever the program has a defined meaning.
  \<^item> The value returned by \<^verbatim>\<open>log_append\<close> is a \<^verbatim>\<open>long\<close> and \<^verbatim>\<open>sizeof\<close> yields a
    \<^verbatim>\<open>size_t\<close>; both are 64-bit words here, because the comparison between them converts
    the \<^verbatim>\<open>long\<close> to the unsigned type and so depends on the representation.
  \<^item> \<^verbatim>\<open>time\<close>, \<^verbatim>\<open>log_append\<close>, \<^verbatim>\<open>log_add_to_directory\<close>, \<^verbatim>\<open>send_raw_packet\<close> and
    \<^verbatim>\<open>debug_print\<close> are not part of the two source files. What they return is an input
    of each loop iteration; each call to them is recorded as an event.
\<close>

subsection \<open>Configuration: \<^verbatim>\<open>pacsat_telem.h\<close>\<close>

type_synonym time_t = int
type_synonym c_long = "64 word"
type_synonym size_t = "64 word"

text \<open>
  The macros of the header are compile-time constants of the loop. They are collected in a
  record, so that the loop can be studied for every value of the periods;
  \<open>pacsat_telem_h\<close> holds the values of the header. \<open>sizeof_sensor_telemetry\<close> stands for
  \<^verbatim>\<open>sizeof(g_sensor_telemetry)\<close>, whose type is declared in \<^verbatim>\<open>sensor_telemetry.h\<close>.
\<close>

record config =
  PERIOD_TO_SAMPLE_TELEM_IN_SECONDS :: int
  PERIOD_TO_STORE_WOD_IN_SECONDS :: int
  MAX_WOD_FILE_SIZE_IN_KB :: int
  MAX_NUMBER_FILE_IO_ERRORS :: int
  sizeof_sensor_telemetry :: size_t

definition pacsat_telem_h :: "size_t \<Rightarrow> config" where
  "pacsat_telem_h frame_size =
     \<lparr> PERIOD_TO_SAMPLE_TELEM_IN_SECONDS = 10,
       PERIOD_TO_STORE_WOD_IN_SECONDS = 60,
       MAX_WOD_FILE_SIZE_IN_KB = 10,
       MAX_NUMBER_FILE_IO_ERRORS = 5,
       sizeof_sensor_telemetry = frame_size \<rparr>"

definition WOD_PATH :: string where
  "WOD_PATH = ''wod''"

definition BROADCAST_CALLSIGN :: string where
  "BROADCAST_CALLSIGN = ''AMSAT-11''"

definition TIME_CALL :: string where
  "TIME_CALL = ''TIME-1''"

definition TELEM_TYPE_1_CALL :: string where
  "TELEM_TYPE_1_CALL = ''TLMP1''"

definition TELEM_TYPE_2_CALL :: string where
  "TELEM_TYPE_2_CALL = ''TLMP2''"

definition PID_COMMAND :: "8 word" where
  "PID_COMMAND = 0xBC"

definition PID_FILE :: "8 word" where
  "PID_FILE = 0xBB"

definition PID_NO_PROTOCOL :: "8 word" where
  "PID_NO_PROTOCOL = 0xF0"

definition EXIT_SUCCESS :: int where
  "EXIT_SUCCESS = 0"

subsection \<open>Program state and events\<close>

text \<open>
  The fields of \<^verbatim>\<open>sensor_telemetry_t\<close> that \<^verbatim>\<open>read_sensors\<close> assigns. The timestamp
  receives a \<^verbatim>\<open>uint32_t\<close>.
\<close>

record sensor_telemetry_t =
  timestamp :: "32 word"
  SHTC3_temp :: int
  SHTC3_humidity :: int
  TempHumidityValid :: int
  LPS22_pressure :: int
  LPS22_temp :: int
  PressureValid :: int

text \<open>The global variables that the loop reads and writes.\<close>

record globals =
  last_time_checked_wod :: time_t
  last_time_checked_period_to_sample_telem :: time_t
  g_num_of_file_io_errors :: int
  g_sensor_telemetry :: sensor_telemetry_t
  g_verbose :: bool

text \<open>
  The payload handed to \<^verbatim>\<open>send_raw_packet\<close> is either an array of bytes or the bytes of
  the telemetry structure, whose layout is fixed by the missing header.
\<close>

datatype payload = Bytes "8 word list" | Frame sensor_telemetry_t

record packet =
  from_callsign :: string
  to_callsign :: string
  pid :: "8 word"
  data :: payload

datatype message =
    Could_not_save string
  | Wrote_WOD_file string "32 word"
  | Rolling_WOD_file c_long
  | Sending_Sensor_Telem "32 word"
  | Too_many_errors
  | Signal_received

datatype event =
    Log_append string sensor_telemetry_t
  | Log_add_to_directory string
  | Send_raw_packet packet
  | Printf message
  | Debug_print message
  | Exit int

text \<open>
  What the environment answers during one pass of the loop: the clock read by
  \<^verbatim>\<open>time(0)\<close>, the value \<^verbatim>\<open>log_append\<close> returns if it is called, and the value
  \<^verbatim>\<open>send_raw_packet\<close> returns if it is called.
\<close>

record answers =
  time_now :: time_t
  log_append_returns :: c_long
  send_raw_packet_returns :: int

subsection \<open>The functions of \<^verbatim>\<open>telem_main.c\<close>\<close>

definition read_sensors :: "32 word \<Rightarrow> globals \<Rightarrow> globals" where
  "read_sensors now g =
     g\<lparr> g_sensor_telemetry :=
          (g_sensor_telemetry g)\<lparr> timestamp := now,
             SHTC3_temp := 11, SHTC3_humidity := 55, TempHumidityValid := 1,
             LPS22_pressure := 66, LPS22_temp := 22, PressureValid := 1 \<rparr> \<rparr>"

text \<open>
  \<^verbatim>\<open>tlm_send_time\<close>: the four status bytes are \<^verbatim>\<open>now & 0xff\<close>, \<^verbatim>\<open>(now >> 8) & 0xff\<close>,
  \<^verbatim>\<open>(now >> 16) & 0xff\<close> and \<^verbatim>\<open>(now >> 24) & 0xff\<close>. The result is the return code of
  \<^verbatim>\<open>send_raw_packet\<close> together with the calls made.
\<close>

definition tlm_send_time :: "time_t \<Rightarrow> int \<Rightarrow> int \<times> event list" where
  "tlm_send_time now send_rc =
     (let status = [word_of_int (now AND 0xff),
                    word_of_int (drop_bit 8 now AND 0xff),
                    word_of_int (drop_bit 16 now AND 0xff),
                    word_of_int (drop_bit 24 now AND 0xff)]
      in (send_rc,
          [Send_raw_packet \<lparr> from_callsign = BROADCAST_CALLSIGN, to_callsign = TIME_CALL,
                             pid = PID_NO_PROTOCOL, data = Bytes status \<rparr>]))"

definition tlm_send_sensor_telem :: "globals \<Rightarrow> int \<Rightarrow> int \<times> event list" where
  "tlm_send_sensor_telem g send_rc =
     (send_rc,
      [Debug_print (Sending_Sensor_Telem (timestamp (g_sensor_telemetry g))),
       Send_raw_packet \<lparr> from_callsign = BROADCAST_CALLSIGN, to_callsign = TELEM_TYPE_1_CALL,
                         pid = PID_NO_PROTOCOL, data = Frame (g_sensor_telemetry g) \<rparr>])"

text \<open>
  \<^verbatim>\<open>signal_exit(sig)\<close> prints only when verbose and \<^verbatim>\<open>sig > 0\<close>, then calls \<^verbatim>\<open>exit(0)\<close>.
\<close>

definition signal_exit :: "int \<Rightarrow> globals \<Rightarrow> event list" where
  "signal_exit sig g =
     (if g_verbose g \<and> sig > 0 then [Printf Signal_received] else []) @ [Exit 0]"

subsection \<open>The body of the main loop\<close>

text \<open>
  Lines 156 to 175 of \<^verbatim>\<open>main\<close>: the store of whole orbit data. The test
  \<^verbatim>\<open>size < sizeof(g_sensor_telemetry)\<close> compares a \<^verbatim>\<open>long\<close> with a \<^verbatim>\<open>size_t\<close>, hence in
  the unsigned order of the words; \<^verbatim>\<open>size/1024 > MAX_WOD_FILE_SIZE_IN_KB\<close> is a signed
  division that truncates towards zero, followed by a signed comparison.
\<close>

definition store_wod :: "config \<Rightarrow> string \<Rightarrow> answers \<Rightarrow> globals \<Rightarrow> globals \<times> event list" where
  "store_wod cfg wod_telem_path a g =
     (let now = time_now a in
      if now - last_time_checked_wod g > PERIOD_TO_STORE_WOD_IN_SECONDS cfg then
        let g1 = g\<lparr> last_time_checked_wod := now \<rparr>;
            size = log_append_returns a;
            call = [Log_append wod_telem_path (g_sensor_telemetry g1)];
            (g2, ev) =
              (if size < sizeof_sensor_telemetry cfg then
                 (g1\<lparr> g_num_of_file_io_errors := g_num_of_file_io_errors g1 + 1 \<rparr>,
                  if g_verbose g1 then [Printf (Could_not_save wod_telem_path)] else [])
               else
                 (g1,
                  if g_verbose g1
                  then [Printf (Wrote_WOD_file wod_telem_path (timestamp (g_sensor_telemetry g1)))]
                  else []));
            roll =
              (if sint size sdiv 1024 > MAX_WOD_FILE_SIZE_IN_KB cfg
               then [Debug_print (Rolling_WOD_file size), Log_add_to_directory wod_telem_path]
               else [])
        in (g2, call @ ev @ roll)
      else (g, []))"

text \<open>Lines 178 to 186: sampling the sensors and broadcasting the frame.\<close>

definition sample_telem :: "config \<Rightarrow> answers \<Rightarrow> globals \<Rightarrow> globals \<times> event list" where
  "sample_telem cfg a g =
     (let now = time_now a in
      if now - last_time_checked_period_to_sample_telem g > PERIOD_TO_SAMPLE_TELEM_IN_SECONDS cfg
      then
        let g1 = g\<lparr> last_time_checked_period_to_sample_telem := now \<rparr>;
            g2 = read_sensors (word_of_int now) g1;
            (rc, ev) = tlm_send_sensor_telem g2 (send_raw_packet_returns a)
        in (g2, ev)
      else (g, []))"

text \<open>
  One pass through the body of \<^verbatim>\<open>while (1)\<close>, lines 151 to 194. The result holds the
  globals after the pass, the calls made in order, and whether the process has exited.
\<close>

definition main_loop_body ::
    "config \<Rightarrow> string \<Rightarrow> answers \<Rightarrow> globals \<Rightarrow> globals \<times> event list \<times> bool" where
  "main_loop_body cfg wod_telem_path a g =
     (let (g2, ev) =
            (if PERIOD_TO_SAMPLE_TELEM_IN_SECONDS cfg > 0 then
               let (g1, ev1) =
                     (if PERIOD_TO_STORE_WOD_IN_SECONDS cfg > 0
                      then store_wod cfg wod_telem_path a g
                      else (g, []));
                   (g2, ev2) = sample_telem cfg a g1
               in (g2, ev1 @ ev2)
             else (g, []))
      in if g_num_of_file_io_errors g2 > MAX_NUMBER_FILE_IO_ERRORS cfg
         then (g2, ev @ Printf Too_many_errors # signal_exit 0 g2, True)
         else (g2, ev, False))"

text \<open>The three components of the result of a pass.\<close>

definition pass_globals :: "config \<Rightarrow> string \<Rightarrow> answers \<Rightarrow> globals \<Rightarrow> globals" where
  "pass_globals cfg wod_telem_path a g = fst (main_loop_body cfg wod_telem_path a g)"

definition pass_events :: "config \<Rightarrow> string \<Rightarrow> answers \<Rightarrow> globals \<Rightarrow> event list" where
  "pass_events cfg wod_telem_path a g = fst (snd (main_loop_body cfg wod_telem_path a g))"

definition pass_exited :: "config \<Rightarrow> string \<Rightarrow> answers \<Rightarrow> globals \<Rightarrow> bool" where
  "pass_exited cfg wod_telem_path a g = snd (snd (main_loop_body cfg wod_telem_path a g))"

subsection \<open>Start-up and runs of the loop\<close>

text \<open>
  The globals when the loop is entered: the static initialisers of lines 69 to 72, the
  verbose flag from the command line, and line 148, which stores the start-up time in
  \<^verbatim>\<open>last_time_checked_wod\<close> only.
\<close>

definition main_startup :: "bool \<Rightarrow> time_t \<Rightarrow> globals" where
  "main_startup verbose now =
     \<lparr> last_time_checked_wod = now,
       last_time_checked_period_to_sample_telem = 0,
       g_num_of_file_io_errors = 0,
       g_sensor_telemetry =
         \<lparr> timestamp = 0, SHTC3_temp = 0, SHTC3_humidity = 0, TempHumidityValid = 0,
           LPS22_pressure = 0, LPS22_temp = 0, PressureValid = 0 \<rparr>,
       g_verbose = verbose \<rparr>"

text \<open>
  \<^verbatim>\<open>while (1)\<close> never returns by itself. A run is driven by the finite list of answers
  that the environment gives to the successive passes; it stops early when a pass exits.
  The trace pairs the clock reading of each pass with the calls made in that pass. The
  flag in the result tells whether the process has exited.
\<close>

type_synonym trace = "(time_t \<times> event list) list"

fun main_loop :: "config \<Rightarrow> string \<Rightarrow> answers list \<Rightarrow> globals \<Rightarrow> trace \<times> globals \<times> bool" where
  "main_loop cfg wod_telem_path [] g = ([], g, False)"
| "main_loop cfg wod_telem_path (a # as) g =
     (case main_loop_body cfg wod_telem_path a g of
        (g', ev, exited) \<Rightarrow>
          if exited then ([(time_now a, ev)], g', True)
          else (case main_loop cfg wod_telem_path as g' of
                  (tr, g'', ex) \<Rightarrow> ((time_now a, ev) # tr, g'', ex)))"

subsection \<open>Observing events\<close>

fun is_log_append :: "event \<Rightarrow> bool" where
  "is_log_append (Log_append p f) = True"
| "is_log_append e = False"

fun is_log_add_to_directory :: "event \<Rightarrow> bool" where
  "is_log_add_to_directory (Log_add_to_directory p) = True"
| "is_log_add_to_directory e = False"

fun is_send_raw_packet :: "event \<Rightarrow> bool" where
  "is_send_raw_packet (Send_raw_packet p) = True"
| "is_send_raw_packet e = False"

fun is_exit :: "event \<Rightarrow> bool" where
  "is_exit (Exit c) = True"
| "is_exit e = False"

fun is_printf :: "event \<Rightarrow> bool" where
  "is_printf (Printf m) = True"
| "is_printf e = False"

text \<open>A pass holds a store event, a rotation, a sample event, or the exit.\<close>

definition stored :: "event list \<Rightarrow> bool" where
  "stored ev = list_ex is_log_append ev"

definition rotated :: "event list \<Rightarrow> bool" where
  "rotated ev = list_ex is_log_add_to_directory ev"

definition sampled :: "event list \<Rightarrow> bool" where
  "sampled ev = list_ex is_send_raw_packet ev"

definition sample_times :: "trace \<Rightarrow> time_t list" where
  "sample_times tr = map fst (filter (\<lambda>p. sampled (snd p)) tr)"

definition store_times :: "trace \<Rightarrow> time_t list" where
  "store_times tr = map fst (filter (\<lambda>p. stored (snd p)) tr)"

definition rotation_times :: "trace \<Rightarrow> time_t list" where
  "rotation_times tr = map fst (filter (\<lambda>p. rotated (snd p)) tr)"

text \<open>The calls of the WOD log made in a pass, in order.\<close>

definition log_calls :: "event list \<Rightarrow> event list" where
  "log_calls ev = filter (\<lambda>e. is_log_append e \<or> is_log_add_to_directory e) ev"

text \<open>The members of a list of times that lie in the closed interval from \<open>lo\<close> to \<open>hi\<close>.\<close>

definition within :: "time_t \<Rightarrow> time_t \<Rightarrow> time_t list \<Rightarrow> time_t list" where
  "within lo hi ts = filter (\<lambda>t. lo \<le> t \<and> t \<le> hi) ts"

text \<open>Answers of an environment in which only the clock matters.\<close>

definition tick :: "c_long \<Rightarrow> int \<Rightarrow> time_t \<Rightarrow> answers" where
  "tick ret rc t = \<lparr> time_now = t, log_append_returns = ret, send_raw_packet_returns = rc \<rparr>"

text \<open>A run has called \<^verbatim>\<open>exit\<close> when some pass of its trace holds the call.\<close>

definition exit_called :: "trace \<Rightarrow> bool" where
  "exit_called tr = list_ex (\<lambda>p. list_ex is_exit (snd p)) tr"

text \<open>The value of a list of bytes read least significant byte first.\<close>

fun little_endian :: "8 word list \<Rightarrow> int" where
  "little_endian [] = 0"
| "little_endian (b # bs) = uint b + 256 * little_endian bs"

subsection \<open>A working log for the scenario of the specification\<close>

text \<open>
  Modelled from the spec: \<^verbatim>\<open>log_append\<close> and \<^verbatim>\<open>log_add_to_directory\<close> are declared in
  \<^verbatim>\<open>pacsat_log.h\<close> and defined outside the two source files. According to the
  specification a successful append adds the raw bytes of one frame to the working file
  and returns the new total size of the file, and a rotation moves the working file
  away, so that the next append starts a fresh one.
\<close>

definition log_append_ok :: "size_t \<Rightarrow> nat \<Rightarrow> c_long" where
  "log_append_ok frame_size file = of_nat (file + unat frame_size)"

fun wod_file_after :: "size_t \<Rightarrow> nat \<Rightarrow> event list \<Rightarrow> nat" where
  "wod_file_after frame_size file [] = file"
| "wod_file_after frame_size file (Log_append p f # ev) =
     wod_file_after frame_size (file + unat frame_size) ev"
| "wod_file_after frame_size file (Log_add_to_directory p # ev) =
     wod_file_after frame_size 0 ev"
| "wod_file_after frame_size file (e # ev) = wod_file_after frame_size file ev"

text \<open>
  The loop driven by a list of clock readings, with a log that always succeeds and a
  sender that always returns \<^verbatim>\<open>EXIT_SUCCESS\<close>. Each entry of the trace holds the clock
  reading of a pass, its calls, and the size of the working file after it. The result
  holds the trace, the size of the working file at the end, the globals, and whether the
  process has exited.
\<close>

type_synonym sized_trace = "(time_t \<times> event list \<times> nat) list"

fun scenario_loop ::
    "config \<Rightarrow> string \<Rightarrow> time_t list \<Rightarrow> nat \<Rightarrow> globals
      \<Rightarrow> sized_trace \<times> nat \<times> globals \<times> bool" where
  "scenario_loop cfg wod_telem_path [] file g = ([], file, g, False)"
| "scenario_loop cfg wod_telem_path (t # ts) file g =
     (case main_loop_body cfg wod_telem_path
             (tick (log_append_ok (sizeof_sensor_telemetry cfg) file) EXIT_SUCCESS t) g of
        (g', ev, exited) \<Rightarrow>
          let file' = wod_file_after (sizeof_sensor_telemetry cfg) file ev in
          if exited then ([(t, ev, file')], file', g', True)
          else (case scenario_loop cfg wod_telem_path ts file' g' of
                  (tr, file'', g'', ex) \<Rightarrow> ((t, ev, file') # tr, file'', g'', ex)))"

definition passes :: "sized_trace \<Rightarrow> trace" where
  "passes tr = map (\<lambda>p. (fst p, fst (snd p))) tr"

definition store_sizes :: "sized_trace \<Rightarrow> (time_t \<times> nat) list" where
  "store_sizes tr = map (\<lambda>p. (fst p, snd (snd p))) (filter (\<lambda>p. stored (fst (snd p))) tr)"

text \<open>
  What the scenario is asked about: the times of the sample events, the times of the
  store events with the size of the file after each, the times of the rotations, the
  final size of the file, the final globals, and whether the process has exited.
\<close>

definition summary ::
    "sized_trace \<times> nat \<times> globals \<times> bool
      \<Rightarrow> time_t list \<times> (time_t \<times> nat) list \<times> time_t list \<times> nat \<times> globals \<times> bool" where
  "summary r =
     (case r of (tr, file, g, exited) \<Rightarrow>
        (sample_times (passes tr), store_sizes tr, rotation_times (passes tr),
         file, g, exited))"

text \<open>
  The scenario: sampling period 10 s, storing period 60 s, threshold 5, maximal size
  10 KB, frames of 32 bytes, the clock read as 0 at start-up and then as 0, 1, ..., 600
  by the passes of the loop, starting from an empty working file.
\<close>

definition scenario_600 :: "sized_trace \<times> nat \<times> globals \<times> bool" where
  "scenario_600 = scenario_loop (pacsat_telem_h 32) ''/tmp/wod'' [0..600] 0 (main_startup False 0)"

section \<open>Properties of one pass of the loop\<close>

lemmas body_defs = pass_globals_def pass_events_def pass_exited_def main_loop_body_def
  store_wod_def sample_telem_def tlm_send_sensor_telem_def signal_exit_def read_sensors_def

lemma store_wod_events:
  "snd (store_wod cfg p a g) =
     (if time_now a - last_time_checked_wod g > PERIOD_TO_STORE_WOD_IN_SECONDS cfg then
        Log_append p (g_sensor_telemetry g) #
        (if g_verbose g then
           [Printf (if log_append_returns a < sizeof_sensor_telemetry cfg then Could_not_save p
                    else Wrote_WOD_file p (timestamp (g_sensor_telemetry g)))]
         else []) @
        (if sint (log_append_returns a) sdiv 1024 > MAX_WOD_FILE_SIZE_IN_KB cfg
         then [Debug_print (Rolling_WOD_file (log_append_returns a)), Log_add_to_directory p]
         else [])
      else [])"
  by (simp add: store_wod_def Let_def)

lemma store_wod_globals:
  "fst (store_wod cfg p a g) =
     (if time_now a - last_time_checked_wod g > PERIOD_TO_STORE_WOD_IN_SECONDS cfg then
        g\<lparr> last_time_checked_wod := time_now a,
           g_num_of_file_io_errors :=
             (if log_append_returns a < sizeof_sensor_telemetry cfg
              then g_num_of_file_io_errors g + 1 else g_num_of_file_io_errors g) \<rparr>
      else g)"
  by (simp add: store_wod_def Let_def)

lemma sample_telem_events:
  "snd (sample_telem cfg a g) =
     (if time_now a - last_time_checked_period_to_sample_telem g > PERIOD_TO_SAMPLE_TELEM_IN_SECONDS cfg
      then snd (tlm_send_sensor_telem
                  (read_sensors (word_of_int (time_now a))
                     (g\<lparr> last_time_checked_period_to_sample_telem := time_now a \<rparr>))
                  (send_raw_packet_returns a))
      else [])"
  by (simp add: sample_telem_def Let_def split: prod.splits)

lemma sample_telem_globals:
  "fst (sample_telem cfg a g) =
     (if time_now a - last_time_checked_period_to_sample_telem g > PERIOD_TO_SAMPLE_TELEM_IN_SECONDS cfg
      then read_sensors (word_of_int (time_now a))
             (g\<lparr> last_time_checked_period_to_sample_telem := time_now a \<rparr>)
      else g)"
  by (simp add: sample_telem_def Let_def split: prod.splits)

lemma pass_sampled:
  "sampled (pass_events cfg p a g) \<longleftrightarrow>
     PERIOD_TO_SAMPLE_TELEM_IN_SECONDS cfg > 0 \<and>
     time_now a - last_time_checked_period_to_sample_telem g > PERIOD_TO_SAMPLE_TELEM_IN_SECONDS cfg"
  by (simp add: body_defs sampled_def Let_def split: prod.splits)

lemma pass_stored:
  "stored (pass_events cfg p a g) \<longleftrightarrow>
     PERIOD_TO_SAMPLE_TELEM_IN_SECONDS cfg > 0 \<and> PERIOD_TO_STORE_WOD_IN_SECONDS cfg > 0 \<and>
     time_now a - last_time_checked_wod g > PERIOD_TO_STORE_WOD_IN_SECONDS cfg"
  by (simp add: body_defs stored_def Let_def split: prod.splits)

lemma pass_rotated:
  "rotated (pass_events cfg p a g) \<longleftrightarrow>
     stored (pass_events cfg p a g) \<and>
     sint (log_append_returns a) sdiv 1024 > MAX_WOD_FILE_SIZE_IN_KB cfg"
  by (simp add: body_defs stored_def rotated_def Let_def split: prod.splits)

lemma pass_last_sample:
  "last_time_checked_period_to_sample_telem (pass_globals cfg p a g) =
     (if sampled (pass_events cfg p a g) then time_now a
      else last_time_checked_period_to_sample_telem g)"
  by (simp add: body_defs sampled_def Let_def split: prod.splits)

lemma pass_last_wod:
  "last_time_checked_wod (pass_globals cfg p a g) =
     (if stored (pass_events cfg p a g) then time_now a else last_time_checked_wod g)"
  by (simp add: body_defs stored_def Let_def split: prod.splits)

lemma pass_errors:
  "g_num_of_file_io_errors (pass_globals cfg p a g) =
     (if stored (pass_events cfg p a g) \<and> log_append_returns a < sizeof_sensor_telemetry cfg
      then g_num_of_file_io_errors g + 1 else g_num_of_file_io_errors g)"
  by (simp add: body_defs stored_def Let_def split: prod.splits)

lemma pass_exit:
  "pass_exited cfg p a g \<longleftrightarrow>
     g_num_of_file_io_errors (pass_globals cfg p a g) > MAX_NUMBER_FILE_IO_ERRORS cfg"
  by (simp add: pass_globals_def pass_exited_def main_loop_body_def Let_def split: prod.splits)

lemma pass_verbose: "g_verbose (pass_globals cfg p a g) = g_verbose g"
  by (simp add: body_defs Let_def split: prod.splits)

lemmas scenario_defs = pacsat_telem_h_def main_startup_def tick_def

text \<open>The return code of \<^verbatim>\<open>send_raw_packet\<close> does not enter the result of a pass.\<close>

lemma body_ignores_send_rc:
  "main_loop_body cfg p (send_raw_packet_returns_update f a) g = main_loop_body cfg p a g"
  by (simp add: main_loop_body_def store_wod_def sample_telem_def tlm_send_sensor_telem_def Let_def)

text \<open>The calls of a pass, part by part, and the calls of the WOD log among them.\<close>

lemma pass_events_eq:
  "pass_events cfg p a g =
     (if 0 < PERIOD_TO_SAMPLE_TELEM_IN_SECONDS cfg then
        (if 0 < PERIOD_TO_STORE_WOD_IN_SECONDS cfg then snd (store_wod cfg p a g) else []) @
        snd (sample_telem cfg a
               (if 0 < PERIOD_TO_STORE_WOD_IN_SECONDS cfg then fst (store_wod cfg p a g) else g))
      else []) @
     (if pass_exited cfg p a g
      then Printf Too_many_errors # signal_exit 0 (pass_globals cfg p a g) else [])"
  by (simp add: pass_events_def pass_exited_def pass_globals_def main_loop_body_def Let_def
      split: prod.splits)

lemma log_calls_Nil: "log_calls [] = []"
  by (simp add: log_calls_def)

lemma log_calls_append: "log_calls (xs @ ys) = log_calls xs @ log_calls ys"
  by (simp add: log_calls_def)

lemma log_calls_store:
  "log_calls (snd (store_wod cfg p a g)) =
     (if time_now a - last_time_checked_wod g > PERIOD_TO_STORE_WOD_IN_SECONDS cfg then
        Log_append p (g_sensor_telemetry g) #
        (if sint (log_append_returns a) sdiv 1024 > MAX_WOD_FILE_SIZE_IN_KB cfg
         then [Log_add_to_directory p] else [])
      else [])"
  by (simp add: store_wod_events log_calls_def)

lemma log_calls_sample: "log_calls (snd (sample_telem cfg a g)) = []"
  by (simp add: sample_telem_events tlm_send_sensor_telem_def log_calls_def)

lemma log_calls_exit: "log_calls (Printf Too_many_errors # signal_exit sig g) = []"
  by (simp add: signal_exit_def log_calls_def)

lemma log_calls_pass:
  "log_calls (pass_events cfg p a g) =
     (if rotated (pass_events cfg p a g)
      then [Log_append p (g_sensor_telemetry g), Log_add_to_directory p]
      else if stored (pass_events cfg p a g) then [Log_append p (g_sensor_telemetry g)]
      else [])"
  by (simp only: pass_rotated pass_stored)
     (simp add: pass_events_eq log_calls_Nil log_calls_append log_calls_store log_calls_sample log_calls_exit)

section \<open>Packing four bytes\<close>

lemma take_bit_split:
  "take_bit (m + n) (k::int) = take_bit m k + 2 ^ m * take_bit n (drop_bit m k)"
proof -
  have "push_bit m (drop_bit m (take_bit (m + n) k)) + take_bit m (take_bit (m + n) k)
          = take_bit (m + n) k"
    by (rule bits_ident)
  moreover have "drop_bit m (take_bit (m + n) k) = take_bit n (drop_bit m k)"
    by (simp add: take_bit_drop_bit add.commute)
  moreover have "take_bit m (take_bit (m + n) k) = take_bit m k"
    by simp
  ultimately have "take_bit n (drop_bit m k) * 2 ^ m + take_bit m k = take_bit (m + n) k"
    by (simp add: push_bit_eq_mult)
  then show ?thesis
    by (simp add: mult.commute add.commute)
qed

lemma uint_byte: "uint (word_of_int (x AND 0xff) :: 8 word) = take_bit 8 x"
proof -
  have "x AND 0xff = x AND mask 8" by (simp add: mask_eq_exp_minus_1)
  also have "\<dots> = take_bit 8 x" by (simp only: take_bit_eq_mask)
  finally show ?thesis by (simp add: uint_word_of_int_eq)
qed

lemma little_endian_status:
  "little_endian [word_of_int (now AND 0xff), word_of_int (drop_bit 8 now AND 0xff),
                  word_of_int (drop_bit 16 now AND 0xff), word_of_int (drop_bit 24 now AND 0xff)]
     = take_bit 32 now"
proof -
  have a: "take_bit 32 now = take_bit 8 now + 256 * take_bit 24 (drop_bit 8 now)"
    using take_bit_split [of 8 24 now] by simp
  have b: "take_bit 24 (drop_bit 8 now) = take_bit 8 (drop_bit 8 now) + 256 * take_bit 16 (drop_bit 16 now)"
    using take_bit_split [of 8 16 "drop_bit 8 now"] by simp
  have c: "take_bit 16 (drop_bit 16 now) = take_bit 8 (drop_bit 16 now) + 256 * take_bit 8 (drop_bit 24 now)"
    using take_bit_split [of 8 8 "drop_bit 16 now"] by simp
  show ?thesis
    by (simp only: little_endian.simps uint_byte a b c) simp
qed

section \<open>Facts about division and words\<close>

lemma div_1024_gt: "(K < x div 1024) = ((K + 1) * 1024 \<le> (x::int))"
proof -
  have e: "x = 1024 * (x div 1024) + x mod 1024" by simp
  have l: "0 \<le> x mod 1024" by simp
  have u: "x mod 1024 < 1024" by simp
  show ?thesis
  proof
    assume "K < x div 1024"
    then have "K + 1 \<le> x div 1024" by simp
    then have "(K + 1) * 1024 \<le> 1024 * (x div 1024)" by simp
    with e l show "(K + 1) * 1024 \<le> x" by linarith
  next
    assume "(K + 1) * 1024 \<le> x"
    with e u have "(K + 1) * 1024 < 1024 * (x div 1024) + 1024" by linarith
    then have "(K + 1) * 1024 < (x div 1024 + 1) * 1024" by (simp add: algebra_simps)
    then have "K + 1 < x div 1024 + 1" by simp
    then show "K < x div 1024" by simp
  qed
qed

lemma sdiv_1024_gt:
  assumes "0 \<le> K"
  shows "(K < x sdiv 1024) = ((K + 1) * 1024 \<le> (x::int))"
proof (cases "0 < x")
  case True
  then have "x sdiv 1024 = x div 1024"
    by (simp add: signed_divide_int_def)
  then show ?thesis by (simp only: div_1024_gt)
next
  case False
  then have "x sdiv 1024 \<le> 0"
    by (simp add: signed_divide_int_def sgn_if pos_imp_zdiv_nonneg_iff)
  with assms False show ?thesis by auto
qed

lemma nonneg_sint_eq_uint:
  assumes "0 \<le> sint (w::'a::len word)"
  shows "uint w = sint w"
proof -
  have "sint w < 2 ^ (LENGTH('a) - 1)" by (rule sint_lt)
  also have "(2::int) ^ (LENGTH('a) - 1) \<le> 2 ^ LENGTH('a)"
    by (rule power_increasing) simp_all
  finally have "take_bit LENGTH('a) (sint w) = sint w"
    using assms by (simp only: take_bit_int_eq_self)
  then show ?thesis by (simp only: uint_sint)
qed

section \<open>Properties of runs\<close>

text \<open>The run of a non-empty list of answers, in terms of its first pass.\<close>

lemma main_loop_Cons:
  "main_loop cfg p (a # as) g =
     (if pass_exited cfg p a g
      then ([(time_now a, pass_events cfg p a g)], pass_globals cfg p a g, True)
      else (case main_loop cfg p as (pass_globals cfg p a g) of
              (tr, g'', ex) \<Rightarrow> ((time_now a, pass_events cfg p a g) # tr, g'', ex)))"
  by (simp add: pass_exited_def pass_events_def pass_globals_def split: prod.splits)

lemma run_trace_Cons:
  "fst (main_loop cfg p (a # as) g) =
     (time_now a, pass_events cfg p a g) #
     (if pass_exited cfg p a g then [] else fst (main_loop cfg p as (pass_globals cfg p a g)))"
  by (simp only: main_loop_Cons) (simp split: prod.splits)

lemma run_globals_Cons:
  "fst (snd (main_loop cfg p (a # as) g)) =
     (if pass_exited cfg p a g then pass_globals cfg p a g
      else fst (snd (main_loop cfg p as (pass_globals cfg p a g))))"
  by (simp only: main_loop_Cons) (simp split: prod.splits)

lemma run_exited_Cons:
  "snd (snd (main_loop cfg p (a # as) g)) =
     (pass_exited cfg p a g \<or> snd (snd (main_loop cfg p as (pass_globals cfg p a g))))"
  by (simp only: main_loop_Cons) (simp split: prod.splits)

lemma store_times_Cons:
  "store_times ((t, ev) # tr) = (if stored ev then t # store_times tr else store_times tr)"
  by (simp add: store_times_def)

lemma sample_times_Cons:
  "sample_times ((t, ev) # tr) = (if sampled ev then t # sample_times tr else sample_times tr)"
  by (simp add: sample_times_def)

lemma store_times_Nil: "store_times [] = []"
  by (simp add: store_times_def)

lemma sample_times_Nil: "sample_times [] = []"
  by (simp add: sample_times_def)

text \<open>
  The call of \<^verbatim>\<open>exit\<close>: a pass makes it exactly when it sets the exit flag, a run exactly
  when the failure counter has exceeded the threshold. The counter never decreases and,
  started at or below the threshold, never passes the threshold by more than one.
\<close>

lemma exit_in_store: "\<not> list_ex is_exit (snd (store_wod cfg p a g))"
  by (simp add: store_wod_events)

lemma exit_in_sample: "\<not> list_ex is_exit (snd (sample_telem cfg a g))"
  by (simp add: sample_telem_events tlm_send_sensor_telem_def)

lemma exit_in_signal_exit: "list_ex is_exit (signal_exit sig g)"
  by (simp add: signal_exit_def)

lemma pass_exit_event: "list_ex is_exit (pass_events cfg p a g) \<longleftrightarrow> pass_exited cfg p a g"
  by (simp add: pass_events_eq exit_in_store exit_in_sample exit_in_signal_exit)

lemma exit_called_Nil: "\<not> exit_called []"
  by (simp add: exit_called_def)

lemma exit_called_Cons: "exit_called ((t, ev) # tr) \<longleftrightarrow> list_ex is_exit ev \<or> exit_called tr"
  by (simp add: exit_called_def)

lemma pass_errors_bounds:
  "g_num_of_file_io_errors g \<le> g_num_of_file_io_errors (pass_globals cfg p a g) \<and>
   g_num_of_file_io_errors (pass_globals cfg p a g) \<le> g_num_of_file_io_errors g + 1"
  by (simp add: pass_errors)

lemma run_exit:
  "g_num_of_file_io_errors g \<le> MAX_NUMBER_FILE_IO_ERRORS cfg \<Longrightarrow>
     (snd (snd (main_loop cfg p as g)) \<longleftrightarrow>
        MAX_NUMBER_FILE_IO_ERRORS cfg < g_num_of_file_io_errors (fst (snd (main_loop cfg p as g)))) \<and>
     (snd (snd (main_loop cfg p as g)) \<longleftrightarrow> exit_called (fst (main_loop cfg p as g))) \<and>
     g_num_of_file_io_errors g \<le> g_num_of_file_io_errors (fst (snd (main_loop cfg p as g))) \<and>
     g_num_of_file_io_errors (fst (snd (main_loop cfg p as g))) \<le> MAX_NUMBER_FILE_IO_ERRORS cfg + 1"
proof (induction as arbitrary: g)
  case Nil
  then show ?case by (simp add: exit_called_Nil)
next
  case (Cons a as)
  let ?g = "pass_globals cfg p a g"
  note b = pass_errors_bounds [of g cfg p a]
  show ?case
  proof (cases "pass_exited cfg p a g")
    case True
    then have "MAX_NUMBER_FILE_IO_ERRORS cfg < g_num_of_file_io_errors ?g"
      by (simp add: pass_exit)
    with True b Cons.prems show ?thesis
      by (simp add: run_trace_Cons run_globals_Cons run_exited_Cons exit_called_Cons
          exit_called_Nil pass_exit_event del: main_loop.simps)
  next
    case False
    then have le: "g_num_of_file_io_errors ?g \<le> MAX_NUMBER_FILE_IO_ERRORS cfg"
      by (simp add: pass_exit)
    from Cons.IH [OF le] False b show ?thesis
      by (auto simp add: run_trace_Cons run_globals_Cons run_exited_Cons exit_called_Cons
          pass_exit_event simp del: main_loop.simps)
  qed
qed

text \<open>Every store of a run happens more than a storing period after the previous one.\<close>

lemma store_times_gap:
  "\<forall>t \<in> set (store_times (fst (main_loop cfg p as g))).
     PERIOD_TO_STORE_WOD_IN_SECONDS cfg < t - last_time_checked_wod g"
proof (induction as arbitrary: g)
  case Nil
  show ?case by (simp add: store_times_Nil)
next
  case (Cons a as)
  let ?g = "pass_globals cfg p a g"
  show ?case
  proof (cases "stored (pass_events cfg p a g)")
    case True
    then have due: "PERIOD_TO_STORE_WOD_IN_SECONDS cfg < time_now a - last_time_checked_wod g"
      and pos: "0 < PERIOD_TO_STORE_WOD_IN_SECONDS cfg"
      by (simp_all add: pass_stored)
    from True have w: "last_time_checked_wod ?g = time_now a"
      by (simp add: pass_last_wod)
    have "PERIOD_TO_STORE_WOD_IN_SECONDS cfg < t - last_time_checked_wod g"
      if "t \<in> set (store_times (fst (main_loop cfg p as ?g)))" for t
    proof -
      from that Cons.IH [of ?g] w have "PERIOD_TO_STORE_WOD_IN_SECONDS cfg < t - time_now a"
        by auto
      with due pos show ?thesis by linarith
    qed
    with True due show ?thesis
      by (auto simp add: run_trace_Cons store_times_Cons store_times_Nil simp del: main_loop.simps)
  next
    case False
    then have "last_time_checked_wod ?g = last_time_checked_wod g"
      by (simp add: pass_last_wod)
    with False Cons.IH [of ?g] show ?thesis
      by (auto simp add: run_trace_Cons store_times_Cons store_times_Nil simp del: main_loop.simps)
  qed
qed

text \<open>
  Sample events: each is more than a sampling period after the previous one, and at
  every pass the last sample is at most a sampling period old.
\<close>

lemma trace_times: "fst ` set (fst (main_loop cfg p as g)) \<subseteq> time_now ` set as"
proof (induction as arbitrary: g)
  case Nil
  show ?case by simp
next
  case (Cons a as)
  from Cons.IH [of "pass_globals cfg p a g"] show ?case
    by (auto simp add: run_trace_Cons simp del: main_loop.simps)
qed

lemma within_nonempty: "within lo hi ts \<noteq> [] \<longleftrightarrow> (\<exists>t \<in> set ts. lo \<le> t \<and> t \<le> hi)"
  by (auto simp add: within_def filter_empty_conv)

lemma sample_times_gap:
  "sorted_wrt (\<lambda>s t. PERIOD_TO_SAMPLE_TELEM_IN_SECONDS cfg < t - s)
     (sample_times (fst (main_loop cfg p as g))) \<and>
   (\<forall>t \<in> set (sample_times (fst (main_loop cfg p as g))).
      PERIOD_TO_SAMPLE_TELEM_IN_SECONDS cfg < t - last_time_checked_period_to_sample_telem g)"
proof (induction as arbitrary: g)
  case Nil
  show ?case by (simp add: sample_times_Nil)
next
  case (Cons a as)
  let ?g = "pass_globals cfg p a g"
  show ?case
  proof (cases "sampled (pass_events cfg p a g)")
    case True
    then have due: "PERIOD_TO_SAMPLE_TELEM_IN_SECONDS cfg
                      < time_now a - last_time_checked_period_to_sample_telem g"
      and pos: "0 < PERIOD_TO_SAMPLE_TELEM_IN_SECONDS cfg"
      by (simp_all add: pass_sampled)
    from True have l: "last_time_checked_period_to_sample_telem ?g = time_now a"
      by (simp add: pass_last_sample)
    have later: "PERIOD_TO_SAMPLE_TELEM_IN_SECONDS cfg < t - time_now a"
      if "t \<in> set (sample_times (fst (main_loop cfg p as ?g)))" for t
      using that Cons.IH [of ?g] l by auto
    have far: "PERIOD_TO_SAMPLE_TELEM_IN_SECONDS cfg
                 < t - last_time_checked_period_to_sample_telem g"
      if "t \<in> set (sample_times (fst (main_loop cfg p as ?g)))" for t
      using later [OF that] due pos by linarith
    from True due later far Cons.IH [of ?g] show ?thesis
      by (auto simp add: run_trace_Cons sample_times_Cons sample_times_Nil
          simp del: main_loop.simps)
  next
    case False
    then have "last_time_checked_period_to_sample_telem ?g
                 = last_time_checked_period_to_sample_telem g"
      by (simp add: pass_last_sample)
    with False Cons.IH [of ?g] show ?thesis
      by (auto simp add: run_trace_Cons sample_times_Cons sample_times_Nil
          simp del: main_loop.simps)
  qed
qed

lemma spaced_in_short_interval:
  assumes "sorted_wrt (\<lambda>s t. P < t - s) ts" and "hi - lo \<le> (P::int)"
  shows "length (within lo hi ts) \<le> 1"
proof (rule ccontr)
  assume "\<not> length (within lo hi ts) \<le> 1"
  then obtain x y zs where e: "within lo hi ts = x # y # zs"
    by (cases "within lo hi ts"; cases "tl (within lo hi ts)") auto
  from assms(1) have "sorted_wrt (\<lambda>s t. P < t - s) (within lo hi ts)"
    unfolding within_def by (rule sorted_wrt_filter)
  with e have g: "P < y - x" by simp
  have "x \<in> set (within lo hi ts)" and "y \<in> set (within lo hi ts)"
    by (simp_all add: e)
  then have "lo \<le> x" and "y \<le> hi"
    by (simp_all add: within_def)
  with g assms(2) show False by linarith
qed

lemma recent_sample:
  assumes pos: "0 < PERIOD_TO_SAMPLE_TELEM_IN_SECONDS cfg"
  shows "sorted (map time_now as) \<Longrightarrow>
         \<forall>t \<in> fst ` set (fst (main_loop cfg p as g)).
           PERIOD_TO_SAMPLE_TELEM_IN_SECONDS cfg < t - last_time_checked_period_to_sample_telem g \<longrightarrow>
           within (t - PERIOD_TO_SAMPLE_TELEM_IN_SECONDS cfg) t
             (sample_times (fst (main_loop cfg p as g))) \<noteq> []"
proof (induction as arbitrary: g)
  case Nil
  show ?case by simp
next
  case (Cons a as)
  let ?P = "PERIOD_TO_SAMPLE_TELEM_IN_SECONDS cfg"
  let ?L = "last_time_checked_period_to_sample_telem"
  let ?g = "pass_globals cfg p a g"
  let ?rest = "fst (main_loop cfg p as ?g)"
  let ?tr = "fst (main_loop cfg p (a # as) g)"
  from Cons.prems have srt: "sorted (map time_now as)"
    and low: "\<forall>b \<in> set as. time_now a \<le> time_now b"
    by simp_all
  note ih = Cons.IH [OF srt, of ?g]
  have tr: "?tr = (time_now a, pass_events cfg p a g) # (if pass_exited cfg p a g then [] else ?rest)"
    by (rule run_trace_Cons)
  show ?case
  proof (intro ballI impI)
    fix t
    assume mem: "t \<in> fst ` set ?tr" and far: "?P < t - ?L g"
    from mem tr have "t = time_now a \<or> (\<not> pass_exited cfg p a g \<and> t \<in> fst ` set ?rest)"
      by (auto split: if_splits)
    then show "within (t - ?P) t (sample_times ?tr) \<noteq> []"
    proof
      assume t: "t = time_now a"
      with far pos have "sampled (pass_events cfg p a g)"
        by (simp add: pass_sampled)
      with t pos show ?thesis
        by (simp only: tr within_nonempty) (auto simp add: sample_times_Cons)
    next
      assume r: "\<not> pass_exited cfg p a g \<and> t \<in> fst ` set ?rest"
      with trace_times [of cfg p as ?g] low have ge: "time_now a \<le> t"
        by auto
      from r have tr': "?tr = (time_now a, pass_events cfg p a g) # ?rest"
        by (simp only: tr) simp
      show ?thesis
      proof (cases "sampled (pass_events cfg p a g)")
        case True
        then have l: "?L ?g = time_now a"
          by (simp add: pass_last_sample)
        show ?thesis
        proof (cases "?P < t - time_now a")
          case True
          with ih r l have "within (t - ?P) t (sample_times ?rest) \<noteq> []"
            by auto
          then show ?thesis
            by (simp only: tr' within_nonempty) (auto simp add: sample_times_Cons)
        next
          case False
          with ge \<open>sampled (pass_events cfg p a g)\<close> show ?thesis
            by (simp only: tr' within_nonempty) (auto simp add: sample_times_Cons)
        qed
      next
        case False
        then have "?L ?g = ?L g"
          by (simp add: pass_last_sample)
        with ih r far have "within (t - ?P) t (sample_times ?rest) \<noteq> []"
          by auto
        then show ?thesis
          by (simp only: tr' within_nonempty) (auto simp add: sample_times_Cons)
      qed
    qed
  qed
qed

section \<open>The scenario of the specification\<close>

text \<open>Runs of the scenario compose along the concatenation of their clock readings.\<close>

lemma scenario_loop_append:
  "scenario_loop cfg p (ts @ us) n g =
     (case scenario_loop cfg p ts n g of
        (tr, n', g', ex) \<Rightarrow>
          if ex then (tr, n', g', True)
          else (case scenario_loop cfg p us n' g' of
                  (tr2, n'', g'', ex2) \<Rightarrow> (tr @ tr2, n'', g'', ex2)))"
  by (induction ts arbitrary: n g) (simp_all add: Let_def split: prod.splits)

lemma summary_append:
  assumes "summary (scenario_loop cfg p ts n g) = (s1, z1, r1, f1, g1, False)"
    and "summary (scenario_loop cfg p us f1 g1) = (s2, z2, r2, f2, g2, ex)"
  shows "summary (scenario_loop cfg p (ts @ us) n g) = (s1 @ s2, z1 @ z2, r1 @ r2, f2, g2, ex)"
  using assms
  by (simp add: scenario_loop_append summary_def passes_def sample_times_def store_sizes_def
      rotation_times_def split: prod.splits)

lemma scenario_loop_times:
  "\<not> snd (snd (snd (scenario_loop cfg p ts n g))) \<Longrightarrow>
     map fst (fst (scenario_loop cfg p ts n g)) = ts"
proof (induction ts arbitrary: n g)
  case Nil
  show ?case by simp
next
  case (Cons t ts)
  let ?b = "main_loop_body cfg p
              (tick (log_append_ok (sizeof_sensor_telemetry cfg) n) EXIT_SUCCESS t) g"
  let ?n = "wod_file_after (sizeof_sensor_telemetry cfg) n (fst (snd ?b))"
  from Cons.prems have c: "\<not> snd (snd ?b)"
    by (auto simp add: Let_def split: prod.splits if_splits)
  with Cons.prems have "\<not> snd (snd (snd (scenario_loop cfg p ts ?n (fst ?b))))"
    by (auto simp add: Let_def split: prod.splits if_splits)
  then have "map fst (fst (scenario_loop cfg p ts ?n (fst ?b))) = ts"
    by (rule Cons.IH)
  with c show ?case
    by (auto simp add: Let_def split: prod.splits if_splits)
qed

text \<open>The scenario, evaluated in parts.\<close>

lemma scenario_part_1:
  "summary (scenario_loop (pacsat_telem_h 32) ''/tmp/wod'' [0..100] 0
     (main_startup False 0)) =
     ([11, 22, 33, 44, 55, 66, 77, 88, 99], [(61, 32)], [], 32,
      \<lparr> last_time_checked_wod = 61, last_time_checked_period_to_sample_telem = 99,
       g_num_of_file_io_errors = 0,
       g_sensor_telemetry =
         \<lparr> timestamp = 99, SHTC3_temp = 11, SHTC3_humidity = 55,
           TempHumidityValid = 1, LPS22_pressure = 66, LPS22_temp = 22,
           PressureValid = 1 \<rparr>,
       g_verbose = False \<rparr>,
      False)"
  by code_simp

lemma scenario_part_2:
  "summary (scenario_loop (pacsat_telem_h 32) ''/tmp/wod'' [101..200] 32
     (\<lparr> last_time_checked_wod = 61, last_time_checked_period_to_sample_telem = 99,
         g_num_of_file_io_errors = 0,
         g_sensor_telemetry =
           \<lparr> timestamp = 99, SHTC3_temp = 11, SHTC3_humidity = 55,
             TempHumidityValid = 1, LPS22_pressure = 66, LPS22_temp = 22,
             PressureValid = 1 \<rparr>,
         g_verbose = False \<rparr>)) =
     ([110, 121, 132, 143, 154, 165, 176, 187, 198], [(122, 64), (183, 96)], [], 96,
      \<lparr> last_time_checked_wod = 183, last_time_checked_period_to_sample_telem = 198,
       g_num_of_file_io_errors = 0,
       g_sensor_telemetry =
         \<lparr> timestamp = 198, SHTC3_temp = 11, SHTC3_humidity = 55,
           TempHumidityValid = 1, LPS22_pressure = 66, LPS22_temp = 22,
           PressureValid = 1 \<rparr>,
       g_verbose = False \<rparr>,
      False)"
  by code_simp

lemma scenario_part_3:
  "summary (scenario_loop (pacsat_telem_h 32) ''/tmp/wod'' [201..300] 96
     (\<lparr> last_time_checked_wod = 183, last_time_checked_period_to_sample_telem = 198,
         g_num_of_file_io_errors = 0,
         g_sensor_telemetry =
           \<lparr> timestamp = 198, SHTC3_temp = 11, SHTC3_humidity = 55,
             TempHumidityValid = 1, LPS22_pressure = 66, LPS22_temp = 22,
             PressureValid = 1 \<rparr>,
         g_verbose = False \<rparr>)) =
     ([209, 220, 231, 242, 253, 264, 275, 286, 297], [(244, 128)], [], 128,
      \<lparr> last_time_checked_wod = 244, last_time_checked_period_to_sample_telem = 297,
       g_num_of_file_io_errors = 0,
       g_sensor_telemetry =
         \<lparr> timestamp = 297, SHTC3_temp = 11, SHTC3_humidity = 55,
           TempHumidityValid = 1, LPS22_pressure = 66, LPS22_temp = 22,
           PressureValid = 1 \<rparr>,
       g_verbose = False \<rparr>,
      False)"
  by code_simp

lemma scenario_part_4:
  "summary (scenario_loop (pacsat_telem_h 32) ''/tmp/wod'' [301..400] 128
     (\<lparr> last_time_checked_wod = 244, last_time_checked_period_to_sample_telem = 297,
         g_num_of_file_io_errors = 0,
         g_sensor_telemetry =
           \<lparr> timestamp = 297, SHTC3_temp = 11, SHTC3_humidity = 55,
             TempHumidityValid = 1, LPS22_pressure = 66, LPS22_temp = 22,
             PressureValid = 1 \<rparr>,
         g_verbose = False \<rparr>)) =
     ([308, 319, 330, 341, 352, 363, 374, 385, 396], [(305, 160), (366, 192)], [], 192,
      \<lparr> last_time_checked_wod = 366, last_time_checked_period_to_sample_telem = 396,
       g_num_of_file_io_errors = 0,
       g_sensor_telemetry =
         \<lparr> timestamp = 396, SHTC3_temp = 11, SHTC3_humidity = 55,
           TempHumidityValid = 1, LPS22_pressure = 66, LPS22_temp = 22,
           PressureValid = 1 \<rparr>,
       g_verbose = False \<rparr>,
      False)"
  by code_simp

lemma scenario_part_5:
  "summary (scenario_loop (pacsat_telem_h 32) ''/tmp/wod'' [401..500] 192
     (\<lparr> last_time_checked_wod = 366, last_time_checked_period_to_sample_telem = 396,
         g_num_of_file_io_errors = 0,
         g_sensor_telemetry =
           \<lparr> timestamp = 396, SHTC3_temp = 11, SHTC3_humidity = 55,
             TempHumidityValid = 1, LPS22_pressure = 66, LPS22_temp = 22,
             PressureValid = 1 \<rparr>,
         g_verbose = False \<rparr>)) =
     ([407, 418, 429, 440, 451, 462, 473, 484, 495], [(427, 224), (488, 256)], [], 256,
      \<lparr> last_time_checked_wod = 488, last_time_checked_period_to_sample_telem = 495,
       g_num_of_file_io_errors = 0,
       g_sensor_telemetry =
         \<lparr> timestamp = 495, SHTC3_temp = 11, SHTC3_humidity = 55,
           TempHumidityValid = 1, LPS22_pressure = 66, LPS22_temp = 22,
           PressureValid = 1 \<rparr>,
       g_verbose = False \<rparr>,
      False)"
  by code_simp

lemma scenario_part_6:
  "summary (scenario_loop (pacsat_telem_h 32) ''/tmp/wod'' [501..600] 256
     (\<lparr> last_time_checked_wod = 488, last_time_checked_period_to_sample_telem = 495,
         g_num_of_file_io_errors = 0,
         g_sensor_telemetry =
           \<lparr> timestamp = 495, SHTC3_temp = 11, SHTC3_humidity = 55,
             TempHumidityValid = 1, LPS22_pressure = 66, LPS22_temp = 22,
             PressureValid = 1 \<rparr>,
         g_verbose = False \<rparr>)) =
     ([506, 517, 528, 539, 550, 561, 572, 583, 594], [(549, 288)], [], 288,
      \<lparr> last_time_checked_wod = 549, last_time_checked_period_to_sample_telem = 594,
       g_num_of_file_io_errors = 0,
       g_sensor_telemetry =
         \<lparr> timestamp = 594, SHTC3_temp = 11, SHTC3_humidity = 55,
           TempHumidityValid = 1, LPS22_pressure = 66, LPS22_temp = 22,
           PressureValid = 1 \<rparr>,
       g_verbose = False \<rparr>,
      False)"
  by code_simp

lemma clock_600:
  "[0..600] =
     [0..100] @ [101..200] @ [201..300] @ [301..400] @ [401..500] @ [501..600::int]"
proof -
  have "[0..600] = [0..100] @ [101..600::int]"
    using upto_split2 [of 0 100 600] by (simp del: upto_rec_numeral)
  also have "[101..600] = [101..200] @ [201..600::int]"
    using upto_split2 [of 101 200 600] by (simp del: upto_rec_numeral)
  also have "[201..600] = [201..300] @ [301..600::int]"
    using upto_split2 [of 201 300 600] by (simp del: upto_rec_numeral)
  also have "[301..600] = [301..400] @ [401..600::int]"
    using upto_split2 [of 301 400 600] by (simp del: upto_rec_numeral)
  also have "[401..600] = [401..500] @ [501..600::int]"
    using upto_split2 [of 401 500 600] by (simp del: upto_rec_numeral)
  finally show ?thesis .
qed

lemma scenario_600_summary:
  "summary scenario_600 =
     ([11, 22, 33, 44, 55, 66, 77, 88, 99, 110, 121, 132, 143, 154, 165, 176, 187,
       198, 209, 220, 231, 242, 253, 264, 275, 286, 297, 308, 319, 330, 341, 352,
       363, 374, 385, 396, 407, 418, 429, 440, 451, 462, 473, 484, 495, 506, 517,
       528, 539, 550, 561, 572, 583, 594],
      [(61, 32), (122, 64), (183, 96), (244, 128), (305, 160), (366, 192), (427,
       224), (488, 256), (549, 288)],
      [], 288,
      \<lparr> last_time_checked_wod = 549, last_time_checked_period_to_sample_telem = 594,
       g_num_of_file_io_errors = 0,
       g_sensor_telemetry =
         \<lparr> timestamp = 594, SHTC3_temp = 11, SHTC3_humidity = 55,
           TempHumidityValid = 1, LPS22_pressure = 66, LPS22_temp = 22,
           PressureValid = 1 \<rparr>,
       g_verbose = False \<rparr>,
      False)"
proof -
  note s5 = summary_append [OF scenario_part_5 scenario_part_6]
  note s4 = summary_append [OF scenario_part_4 s5]
  note s3 = summary_append [OF scenario_part_3 s4]
  note s2 = summary_append [OF scenario_part_2 s3]
  note s1 = summary_append [OF scenario_part_1 s2]
  from s1 show ?thesis
    by (simp only: scenario_600_def clock_600 append.simps)
qed

section \<open>The due checks\<close>

text \<open>
  Claim C1, as stated, fails: line 178 and line 156 compare with \<^verbatim>\<open>>\<close>, so when exactly
  one period has elapsed (10 s since the last sample, 60 s since the last store) neither
  action is performed, although \<open>now - last \<ge> period\<close> holds.
\<close>

theorem due_at_exactly_one_period_counterexample:
  "10 - last_time_checked_period_to_sample_telem (main_startup False 0)
      \<ge> PERIOD_TO_SAMPLE_TELEM_IN_SECONDS (pacsat_telem_h 32) \<and>
   \<not> sampled (pass_events (pacsat_telem_h 32) ''/tmp/wod'' (tick 32 0 10) (main_startup False 0)) \<and>
   60 - last_time_checked_wod (main_startup False 0)
      \<ge> PERIOD_TO_STORE_WOD_IN_SECONDS (pacsat_telem_h 32) \<and>
   \<not> stored (pass_events (pacsat_telem_h 32) ''/tmp/wod'' (tick 32 0 60) (main_startup False 0))"
  by (simp add: pass_sampled pass_stored scenario_defs)

text \<open>
  Claim C1, amended: when the sampling period is positive, a pass samples exactly when
  \<open>now - last\<close> is strictly greater than the sampling period; when both periods are
  positive, a pass stores exactly when \<open>now - last\<close> is strictly greater than the storing
  period. With a clock that counts seconds an action is due again P + 1 seconds after it
  fired.
\<close>

theorem due_when_elapsed_exceeds_period:
  "(0 < PERIOD_TO_SAMPLE_TELEM_IN_SECONDS cfg \<longrightarrow>
      (sampled (pass_events cfg p a g) \<longleftrightarrow>
         time_now a - last_time_checked_period_to_sample_telem g
           > PERIOD_TO_SAMPLE_TELEM_IN_SECONDS cfg)) \<and>
   (0 < PERIOD_TO_SAMPLE_TELEM_IN_SECONDS cfg \<and> 0 < PERIOD_TO_STORE_WOD_IN_SECONDS cfg \<longrightarrow>
      (stored (pass_events cfg p a g) \<longleftrightarrow>
         time_now a - last_time_checked_wod g > PERIOD_TO_STORE_WOD_IN_SECONDS cfg))"
  by (simp add: pass_sampled pass_stored)

text \<open>
  The amended claim C1 at the values of the header: from start-up at time 0, the pass at
  time 11 samples and does not store, and the pass at time 61 stores.
\<close>

theorem due_when_elapsed_exceeds_period_witness:
  "0 < PERIOD_TO_SAMPLE_TELEM_IN_SECONDS (pacsat_telem_h 32) \<and>
   0 < PERIOD_TO_STORE_WOD_IN_SECONDS (pacsat_telem_h 32) \<and>
   sampled (pass_events (pacsat_telem_h 32) ''/tmp/wod'' (tick 32 0 11) (main_startup False 0)) \<and>
   \<not> stored (pass_events (pacsat_telem_h 32) ''/tmp/wod'' (tick 32 0 11) (main_startup False 0)) \<and>
   stored (pass_events (pacsat_telem_h 32) ''/tmp/wod'' (tick 32 0 61) (main_startup False 0))"
  using due_when_elapsed_exceeds_period
          [of "pacsat_telem_h 32" "''/tmp/wod''" "tick 32 0 11" "main_startup False 0"]
        due_when_elapsed_exceeds_period
          [of "pacsat_telem_h 32" "''/tmp/wod''" "tick 32 0 61" "main_startup False 0"]
  by (simp add: scenario_defs)

section \<open>Counting failed appends\<close>

text \<open>
  Claim C2 at the input where \<^verbatim>\<open>log_append\<close> returns -1 with frames of 32 bytes: the store
  is performed, the returned value is below the frame size as a signed number, and yet
  the counter \<^verbatim>\<open>g_num_of_file_io_errors\<close> keeps its value and, in verbose mode, no error is
  printed. The comparison of line 160 converts the \<^verbatim>\<open>long\<close> to \<^verbatim>\<open>size_t\<close>, which turns
  -1 into the largest unsigned value.
\<close>

theorem negative_return_not_counted:
  "stored (pass_events (pacsat_telem_h 32) ''/tmp/wod'' (tick (- 1) 0 61) (main_startup True 0)) \<and>
   sint (log_append_returns (tick (- 1) 0 61)) = - 1 \<and>
   sint (log_append_returns (tick (- 1) 0 61)) < sint (sizeof_sensor_telemetry (pacsat_telem_h 32)) \<and>
   g_num_of_file_io_errors
     (pass_globals (pacsat_telem_h 32) ''/tmp/wod'' (tick (- 1) 0 61) (main_startup True 0))
     = g_num_of_file_io_errors (main_startup True 0) \<and>
   Printf (Could_not_save ''/tmp/wod'')
     \<notin> set (pass_events (pacsat_telem_h 32) ''/tmp/wod'' (tick (- 1) 0 61) (main_startup True 0))"
proof (intro conjI)
  show "stored (pass_events (pacsat_telem_h 32) ''/tmp/wod'' (tick (- 1) 0 61) (main_startup True 0))"
    by (simp add: pass_stored scenario_defs)
  show "sint (log_append_returns (tick (- 1) 0 61)) = - 1"
    by (simp add: tick_def)
  show "sint (log_append_returns (tick (- 1) 0 61)) < sint (sizeof_sensor_telemetry (pacsat_telem_h 32))"
    by (simp add: scenario_defs)
  show "g_num_of_file_io_errors
     (pass_globals (pacsat_telem_h 32) ''/tmp/wod'' (tick (- 1) 0 61) (main_startup True 0))
     = g_num_of_file_io_errors (main_startup True 0)"
    by (simp add: pass_errors pass_stored scenario_defs)
  show "Printf (Could_not_save ''/tmp/wod'')
     \<notin> set (pass_events (pacsat_telem_h 32) ''/tmp/wod'' (tick (- 1) 0 61) (main_startup True 0))"
    by (simp add: scenario_defs pass_events_def main_loop_body_def signed_divide_int_def
        store_wod_def sample_telem_def tlm_send_sensor_telem_def read_sensors_def Let_def)
qed

section \<open>Shutdown after too many failures\<close>

text \<open>
  Claim C3 at an input where it fails. With the values of the header (threshold 5),
  frames of 32 bytes and start-up at time 0, the loop reads the clock at 0, 61, 62, 122,
  183, 244, 305, 366 and 367, so that six stores are due, with idle passes in between.

  When each of the six appends returns -1, a value below the frame size, the counter is
  still 0 after threshold + 1 consecutive failed appends, \<^verbatim>\<open>exit\<close> is never called, and the
  loop goes on to the pass at 367: line 160 compares the \<^verbatim>\<open>long\<close> with a \<^verbatim>\<open>size_t\<close> and
  does not record these failures.

  When each append returns 0 instead, a failure that line 160 records, the loop behaves
  as the claim says: the sixth failed append, at 366, is followed by the call of
  \<^verbatim>\<open>exit\<close> and is the last pass, while after five failed appends the loop is still running
  with the counter at 5.
\<close>

theorem failed_appends_not_shut_down:
  "sint (log_append_returns (tick (- 1) 0 61)) < sint (sizeof_sensor_telemetry (pacsat_telem_h 32)) \<and>
   int (length (store_times (fst (main_loop (pacsat_telem_h 32) ''/tmp/wod''
          (map (tick (- 1) 0) [0, 61, 62, 122, 183, 244, 305, 366, 367]) (main_startup False 0)))))
     = MAX_NUMBER_FILE_IO_ERRORS (pacsat_telem_h 32) + 1 \<and>
   store_times (fst (main_loop (pacsat_telem_h 32) ''/tmp/wod''
          (map (tick (- 1) 0) [0, 61, 62, 122, 183, 244, 305, 366, 367]) (main_startup False 0)))
     = [61, 122, 183, 244, 305, 366] \<and>
   map fst (fst (main_loop (pacsat_telem_h 32) ''/tmp/wod''
          (map (tick (- 1) 0) [0, 61, 62, 122, 183, 244, 305, 366, 367]) (main_startup False 0)))
     = [0, 61, 62, 122, 183, 244, 305, 366, 367] \<and>
   g_num_of_file_io_errors (fst (snd (main_loop (pacsat_telem_h 32) ''/tmp/wod''
          (map (tick (- 1) 0) [0, 61, 62, 122, 183, 244, 305, 366, 367]) (main_startup False 0))))
     = 0 \<and>
   \<not> snd (snd (main_loop (pacsat_telem_h 32) ''/tmp/wod''
          (map (tick (- 1) 0) [0, 61, 62, 122, 183, 244, 305, 366, 367]) (main_startup False 0))) \<and>
   \<not> exit_called (fst (main_loop (pacsat_telem_h 32) ''/tmp/wod''
          (map (tick (- 1) 0) [0, 61, 62, 122, 183, 244, 305, 366, 367]) (main_startup False 0))) \<and>
   store_times (fst (main_loop (pacsat_telem_h 32) ''/tmp/wod''
          (map (tick 0 0) [0, 61, 62, 122, 183, 244, 305, 366, 367]) (main_startup False 0)))
     = [61, 122, 183, 244, 305, 366] \<and>
   map fst (fst (main_loop (pacsat_telem_h 32) ''/tmp/wod''
          (map (tick 0 0) [0, 61, 62, 122, 183, 244, 305, 366, 367]) (main_startup False 0)))
     = [0, 61, 62, 122, 183, 244, 305, 366] \<and>
   g_num_of_file_io_errors (fst (snd (main_loop (pacsat_telem_h 32) ''/tmp/wod''
          (map (tick 0 0) [0, 61, 62, 122, 183, 244, 305, 366, 367]) (main_startup False 0))))
     = 6 \<and>
   snd (snd (main_loop (pacsat_telem_h 32) ''/tmp/wod''
          (map (tick 0 0) [0, 61, 62, 122, 183, 244, 305, 366, 367]) (main_startup False 0))) \<and>
   exit_called (fst (main_loop (pacsat_telem_h 32) ''/tmp/wod''
          (map (tick 0 0) [0, 61, 62, 122, 183, 244, 305, 366, 367]) (main_startup False 0))) \<and>
   store_times (fst (main_loop (pacsat_telem_h 32) ''/tmp/wod''
          (map (tick 0 0) [0, 61, 62, 122, 183, 244, 305, 306]) (main_startup False 0)))
     = [61, 122, 183, 244, 305] \<and>
   g_num_of_file_io_errors (fst (snd (main_loop (pacsat_telem_h 32) ''/tmp/wod''
          (map (tick 0 0) [0, 61, 62, 122, 183, 244, 305, 306]) (main_startup False 0))))
     = 5 \<and>
   \<not> snd (snd (main_loop (pacsat_telem_h 32) ''/tmp/wod''
          (map (tick 0 0) [0, 61, 62, 122, 183, 244, 305, 306]) (main_startup False 0))) \<and>
   \<not> exit_called (fst (main_loop (pacsat_telem_h 32) ''/tmp/wod''
          (map (tick 0 0) [0, 61, 62, 122, 183, 244, 305, 306]) (main_startup False 0)))"
  by code_simp

section \<open>Rotation of the WOD file\<close>

text \<open>
  Claim C5, for a frame size that does not exceed the rotation threshold
  \<open>(MAX_WOD_FILE_SIZE_IN_KB + 1) * 1024\<close> bytes: a pass calls \<^verbatim>\<open>log_add_to_directory\<close>
  exactly when it has called \<^verbatim>\<open>log_append\<close>, the append was successful, and the returned
  size divided by 1024 (truncating) exceeds \<^verbatim>\<open>MAX_WOD_FILE_SIZE_IN_KB\<close>. A rotation implies
  that the returned size is at least the frame size also as a signed number; it never
  happens for a size below \<open>(MAX_WOD_FILE_SIZE_IN_KB + 1) * 1024\<close>; and the rotation is
  called after the single append of the pass has returned, never before or within it.
\<close>

theorem rotation_after_successful_append:
  assumes "0 \<le> MAX_WOD_FILE_SIZE_IN_KB cfg"
    and "uint (sizeof_sensor_telemetry cfg) \<le> (MAX_WOD_FILE_SIZE_IN_KB cfg + 1) * 1024"
  shows "(rotated (pass_events cfg p a g) \<longleftrightarrow>
            stored (pass_events cfg p a g) \<and>
            \<not> log_append_returns a < sizeof_sensor_telemetry cfg \<and>
            MAX_WOD_FILE_SIZE_IN_KB cfg < sint (log_append_returns a) sdiv 1024) \<and>
         (rotated (pass_events cfg p a g) \<longrightarrow>
            uint (sizeof_sensor_telemetry cfg) \<le> sint (log_append_returns a)) \<and>
         (sint (log_append_returns a) < (MAX_WOD_FILE_SIZE_IN_KB cfg + 1) * 1024 \<longrightarrow>
            \<not> rotated (pass_events cfg p a g)) \<and>
         log_calls (pass_events cfg p a g) =
           (if rotated (pass_events cfg p a g)
            then [Log_append p (g_sensor_telemetry g), Log_add_to_directory p]
            else if stored (pass_events cfg p a g) then [Log_append p (g_sensor_telemetry g)]
            else [])"
proof -
  let ?K = "MAX_WOD_FILE_SIZE_IN_KB cfg"
  let ?r = "log_append_returns a"
  let ?f = "sizeof_sensor_telemetry cfg"
  have big: "uint ?f \<le> sint ?r \<and> \<not> ?r < ?f" if "?K < sint ?r sdiv 1024"
  proof -
    from that assms(1) have ge: "(?K + 1) * 1024 \<le> sint ?r"
      by (simp only: sdiv_1024_gt)
    with assms have 1: "uint ?f \<le> sint ?r" by linarith
    from ge assms(1) have "0 \<le> sint ?r" by simp
    then have "uint ?r = sint ?r" by (rule nonneg_sint_eq_uint)
    with 1 have "\<not> uint ?r < uint ?f" by simp
    then have "\<not> ?r < ?f" by (simp add: word_less_def)
    with 1 show ?thesis by simp
  qed
  have small: "\<not> ?K < sint ?r sdiv 1024" if "sint ?r < (?K + 1) * 1024"
    using that assms(1) by (simp only: sdiv_1024_gt)
  show ?thesis
    using big small by (auto simp: pass_rotated log_calls_pass)
qed

text \<open>
  Claim C5 at the values of the header with frames of 32 bytes: a returned size of 11264
  rotates, after the append; a returned size of 11263 does not.
\<close>

theorem rotation_after_successful_append_witness:
  "0 \<le> MAX_WOD_FILE_SIZE_IN_KB (pacsat_telem_h 32) \<and>
   uint (sizeof_sensor_telemetry (pacsat_telem_h 32))
     \<le> (MAX_WOD_FILE_SIZE_IN_KB (pacsat_telem_h 32) + 1) * 1024 \<and>
   rotated (pass_events (pacsat_telem_h 32) ''/tmp/wod'' (tick 11264 0 61) (main_startup False 0)) \<and>
   \<not> rotated (pass_events (pacsat_telem_h 32) ''/tmp/wod'' (tick 11263 0 61) (main_startup False 0)) \<and>
   log_calls (pass_events (pacsat_telem_h 32) ''/tmp/wod'' (tick 11264 0 61) (main_startup False 0))
     = [Log_append ''/tmp/wod'' (g_sensor_telemetry (main_startup False 0)),
        Log_add_to_directory ''/tmp/wod'']"
  using rotation_after_successful_append
          [of "pacsat_telem_h 32" "''/tmp/wod''" "tick 11264 0 61" "main_startup False 0"]
        rotation_after_successful_append
          [of "pacsat_telem_h 32" "''/tmp/wod''" "tick 11263 0 61" "main_startup False 0"]
  by (simp add: scenario_defs pass_stored signed_divide_int_def)

section \<open>The scenario: ten minutes with a working log\<close>

text \<open>
  Claim C4, as stated, fails: in the scenario the loop performs neither 60 sample events
  nor 10 store events. Lines 156 and 178 fire only when more than a period has elapsed.
\<close>

theorem scenario_counts_counterexample:
  "length (sample_times (passes (fst scenario_600))) \<noteq> 60 \<and>
   length (store_sizes (fst scenario_600)) \<noteq> 10"
proof -
  obtain tr n g ex where e: "scenario_600 = (tr, n, g, ex)"
    by (cases scenario_600)
  from scenario_600_summary show ?thesis
    by (simp add: summary_def e)
qed

text \<open>
  Claim C4, amended: with the clock read as 0 at start-up and as 0, 1, ..., 600 by the
  passes, the loop makes a pass at every reading and performs exactly 54 sample events,
  at the times 11, 22, ..., 594, and exactly 9 store events, at the times 61, 122, ...,
  549. The working file grows by 32 bytes per store event, up to 288 bytes; no rotation
  occurs, the failure counter stays 0, and the loop has not exited at time 600.
\<close>

theorem scenario_outcome:
  "map fst (fst scenario_600) = [0..600] \<and>
   sample_times (passes (fst scenario_600)) =
     [11, 22, 33, 44, 55, 66, 77, 88, 99, 110, 121, 132, 143, 154, 165, 176, 187,
       198, 209, 220, 231, 242, 253, 264, 275, 286, 297, 308, 319, 330, 341, 352,
       363, 374, 385, 396, 407, 418, 429, 440, 451, 462, 473, 484, 495, 506, 517,
       528, 539, 550, 561, 572, 583, 594] \<and>
   length (sample_times (passes (fst scenario_600))) = 54 \<and>
   store_sizes (fst scenario_600) =
     [(61, 32), (122, 64), (183, 96), (244, 128), (305, 160), (366, 192), (427,
       224), (488, 256), (549, 288)] \<and>
   length (store_sizes (fst scenario_600)) = 9 \<and>
   rotation_times (passes (fst scenario_600)) = [] \<and>
   fst (snd scenario_600) = 288 \<and>
   g_num_of_file_io_errors (fst (snd (snd scenario_600))) = 0 \<and>
   \<not> snd (snd (snd scenario_600))"
proof -
  obtain tr n g ex where e: "scenario_600 = (tr, n, g, ex)"
    by (cases scenario_600)
  from scenario_600_summary have s: "\<not> ex"
    and r: "sample_times (passes tr) =
     [11, 22, 33, 44, 55, 66, 77, 88, 99, 110, 121, 132, 143, 154, 165, 176, 187,
       198, 209, 220, 231, 242, 253, 264, 275, 286, 297, 308, 319, 330, 341, 352,
       363, 374, 385, 396, 407, 418, 429, 440, 451, 462, 473, 484, 495, 506, 517,
       528, 539, 550, 561, 572, 583, 594] \<and>
   store_sizes tr =
     [(61, 32), (122, 64), (183, 96), (244, 128), (305, 160), (366, 192), (427,
       224), (488, 256), (549, 288)] \<and>
   rotation_times (passes tr) = [] \<and> n = 288 \<and> g_num_of_file_io_errors g = 0"
    by (simp_all add: summary_def e)
  from s e have "\<not> snd (snd (snd (scenario_loop (pacsat_telem_h 32) ''/tmp/wod'' [0..600] 0
                                      (main_startup False 0))))"
    by (simp add: scenario_600_def)
  then have "map fst (fst (scenario_loop (pacsat_telem_h 32) ''/tmp/wod'' [0..600] 0
                             (main_startup False 0))) = [0..600]"
    by (rule scenario_loop_times)
  then have t: "map fst (fst scenario_600) = [0..600]"
    by (simp only: scenario_600_def)
  from r have l: "length (sample_times (passes tr)) = 54 \<and> length (store_sizes tr) = 9"
    by simp
  from t r l s show ?thesis
    by (simp add: e del: upto_rec_numeral)
qed

section \<open>Disabling the checks\<close>

text \<open>
  Claim C6, as stated, fails: the store of lines 155 to 176 is nested in the test
  \<^verbatim>\<open>PERIOD_TO_SAMPLE_TELEM_IN_SECONDS > 0\<close> of line 153. With a storing period of 60 s
  and a sampling period of 0, a clock read at 0, 61, 122 and 183 produces no store
  event, while the same clock with the sampling period of the header produces three.
\<close>

theorem store_disabled_by_sample_period_counterexample:
  "PERIOD_TO_STORE_WOD_IN_SECONDS
     ((pacsat_telem_h 32)\<lparr> PERIOD_TO_SAMPLE_TELEM_IN_SECONDS := 0 \<rparr>) > 0 \<and>
   PERIOD_TO_SAMPLE_TELEM_IN_SECONDS
     ((pacsat_telem_h 32)\<lparr> PERIOD_TO_SAMPLE_TELEM_IN_SECONDS := 0 \<rparr>) \<le> 0 \<and>
   store_times (fst (main_loop (pacsat_telem_h 32) ''/tmp/wod''
                       (map (tick 32 0) [0, 61, 122, 183]) (main_startup False 0)))
     = [61, 122, 183] \<and>
   store_times (fst (main_loop ((pacsat_telem_h 32)\<lparr> PERIOD_TO_SAMPLE_TELEM_IN_SECONDS := 0 \<rparr>)
                       ''/tmp/wod'' (map (tick 32 0) [0, 61, 122, 183]) (main_startup False 0)))
     = []"
  by code_simp

text \<open>
  Claim C6, amended: a pass stores exactly when the sampling period and the storing
  period are both positive and more than the storing period has elapsed since the last
  store; a pass samples exactly when the sampling period is positive and more than the
  sampling period has elapsed since the last sample. The sample check is disabled by its
  own period alone; the store check is disabled by either period.
\<close>

theorem checks_disabled:
  "(stored (pass_events cfg p a g) \<longleftrightarrow>
      0 < PERIOD_TO_SAMPLE_TELEM_IN_SECONDS cfg \<and> 0 < PERIOD_TO_STORE_WOD_IN_SECONDS cfg \<and>
      time_now a - last_time_checked_wod g > PERIOD_TO_STORE_WOD_IN_SECONDS cfg) \<and>
   (sampled (pass_events cfg p a g) \<longleftrightarrow>
      0 < PERIOD_TO_SAMPLE_TELEM_IN_SECONDS cfg \<and>
      time_now a - last_time_checked_period_to_sample_telem g
        > PERIOD_TO_SAMPLE_TELEM_IN_SECONDS cfg)"
  by (simp add: pass_sampled pass_stored)

section \<open>Spacing of the sample events\<close>

text \<open>
  Claim C7, as stated, fails in its first part. With the sampling period of 10 s and a
  clock that advances by one second per pass from 0 to 30, the samples are taken at 11
  and 22, and the closed interval from 0 to 10 holds none. With a clock that advances by
  two seconds per pass, the samples are taken at 12 and 24, and the closed interval from
  13 to 23 holds none.
\<close>

theorem sample_in_every_interval_counterexample:
  "0 < PERIOD_TO_SAMPLE_TELEM_IN_SECONDS (pacsat_telem_h 32) \<and>
   sorted_wrt (<) (map time_now (map (tick 32 0) [0..30])) \<and>
   sample_times (fst (main_loop (pacsat_telem_h 32) ''/tmp/wod''
                        (map (tick 32 0) [0..30]) (main_startup False 0))) = [11, 22] \<and>
   within 0 (0 + PERIOD_TO_SAMPLE_TELEM_IN_SECONDS (pacsat_telem_h 32))
     (sample_times (fst (main_loop (pacsat_telem_h 32) ''/tmp/wod''
                        (map (tick 32 0) [0..30]) (main_startup False 0)))) = [] \<and>
   sorted_wrt (<) (map time_now (map (tick 32 0) [0, 2, 4, 6, 8, 10, 12, 14, 16, 18, 20, 22, 24, 26, 28, 30])) \<and>
   sample_times (fst (main_loop (pacsat_telem_h 32) ''/tmp/wod''
                        (map (tick 32 0) [0, 2, 4, 6, 8, 10, 12, 14, 16, 18, 20, 22, 24, 26, 28, 30])
                        (main_startup False 0))) = [12, 24] \<and>
   within 13 (13 + PERIOD_TO_SAMPLE_TELEM_IN_SECONDS (pacsat_telem_h 32))
     (sample_times (fst (main_loop (pacsat_telem_h 32) ''/tmp/wod''
                        (map (tick 32 0) [0, 2, 4, 6, 8, 10, 12, 14, 16, 18, 20, 22, 24, 26, 28, 30])
                        (main_startup False 0)))) = []"
  by code_simp

text \<open>
  Claim C7, amended: in every run, an interval of length at most the sampling period
  holds at most one sample event. If the sampling period is positive and the clock does
  not go backwards, then at every pass whose clock reading \<open>t\<close> is more than a period
  after the initial value of the last sample time, a sample event lies in the closed
  interval from \<open>t - P\<close> to \<open>t\<close>.
\<close>

theorem sample_spacing:
  "(hi - lo \<le> PERIOD_TO_SAMPLE_TELEM_IN_SECONDS cfg \<longrightarrow>
      length (within lo hi (sample_times (fst (main_loop cfg p as g)))) \<le> 1) \<and>
   (0 < PERIOD_TO_SAMPLE_TELEM_IN_SECONDS cfg \<and> sorted (map time_now as) \<longrightarrow>
      (\<forall>t \<in> fst ` set (fst (main_loop cfg p as g)).
         PERIOD_TO_SAMPLE_TELEM_IN_SECONDS cfg < t - last_time_checked_period_to_sample_telem g \<longrightarrow>
         within (t - PERIOD_TO_SAMPLE_TELEM_IN_SECONDS cfg) t
           (sample_times (fst (main_loop cfg p as g))) \<noteq> []))"
proof (intro conjI impI)
  assume short: "hi - lo \<le> PERIOD_TO_SAMPLE_TELEM_IN_SECONDS cfg"
  from sample_times_gap [of cfg p as g]
  have "sorted_wrt (\<lambda>s t. PERIOD_TO_SAMPLE_TELEM_IN_SECONDS cfg < t - s)
          (sample_times (fst (main_loop cfg p as g)))"
    by (rule conjunct1)
  then show "length (within lo hi (sample_times (fst (main_loop cfg p as g)))) \<le> 1"
    using short by (rule spaced_in_short_interval)
next
  assume "0 < PERIOD_TO_SAMPLE_TELEM_IN_SECONDS cfg \<and> sorted (map time_now as)"
  then show "\<forall>t \<in> fst ` set (fst (main_loop cfg p as g)).
         PERIOD_TO_SAMPLE_TELEM_IN_SECONDS cfg < t - last_time_checked_period_to_sample_telem g \<longrightarrow>
         within (t - PERIOD_TO_SAMPLE_TELEM_IN_SECONDS cfg) t
           (sample_times (fst (main_loop cfg p as g))) \<noteq> []"
    using recent_sample [of cfg as p g] by blast
qed

text \<open>
  The amended claim C7 for the clock that counts from 0 to 30: the interval from 11 to 20
  holds at most one sample event, and at the pass of time 25 a sample event lies between
  15 and 25.
\<close>

theorem sample_spacing_witness:
  "20 - 11 \<le> PERIOD_TO_SAMPLE_TELEM_IN_SECONDS (pacsat_telem_h 32) \<and>
   0 < PERIOD_TO_SAMPLE_TELEM_IN_SECONDS (pacsat_telem_h 32) \<and>
   sorted (map time_now (map (tick 32 0) [0..30])) \<and>
   25 \<in> fst ` set (fst (main_loop (pacsat_telem_h 32) ''/tmp/wod''
                          (map (tick 32 0) [0..30]) (main_startup False 0))) \<and>
   PERIOD_TO_SAMPLE_TELEM_IN_SECONDS (pacsat_telem_h 32)
     < 25 - last_time_checked_period_to_sample_telem (main_startup False 0) \<and>
   length (within 11 20
             (sample_times (fst (main_loop (pacsat_telem_h 32) ''/tmp/wod''
                                   (map (tick 32 0) [0..30]) (main_startup False 0))))) \<le> 1 \<and>
   within (25 - PERIOD_TO_SAMPLE_TELEM_IN_SECONDS (pacsat_telem_h 32)) 25
     (sample_times (fst (main_loop (pacsat_telem_h 32) ''/tmp/wod''
                           (map (tick 32 0) [0..30]) (main_startup False 0)))) \<noteq> []"
proof -
  let ?cfg = "pacsat_telem_h 32"
  let ?as = "map (tick 32 0) [0..30]"
  let ?g = "main_startup False 0"
  have h1: "20 - 11 \<le> PERIOD_TO_SAMPLE_TELEM_IN_SECONDS ?cfg"
    by (simp add: pacsat_telem_h_def)
  have h2: "0 < PERIOD_TO_SAMPLE_TELEM_IN_SECONDS ?cfg \<and> sorted (map time_now ?as)"
    by code_simp
  have h3: "25 \<in> fst ` set (fst (main_loop ?cfg ''/tmp/wod'' ?as ?g))"
    by code_simp
  have h4: "PERIOD_TO_SAMPLE_TELEM_IN_SECONDS ?cfg
              < 25 - last_time_checked_period_to_sample_telem ?g"
    by (simp add: pacsat_telem_h_def main_startup_def)
  note t = sample_spacing [of 20 11 ?cfg "''/tmp/wod''" ?as ?g]
  from t h1 have c1: "length (within 11 20 (sample_times (fst (main_loop ?cfg ''/tmp/wod'' ?as ?g)))) \<le> 1"
    by blast
  from t h2 h3 h4 have c2: "within (25 - PERIOD_TO_SAMPLE_TELEM_IN_SECONDS ?cfg) 25
     (sample_times (fst (main_loop ?cfg ''/tmp/wod'' ?as ?g))) \<noteq> []"
    by blast
  from h1 h2 h3 h4 c1 c2 show ?thesis by blast
qed

section \<open>Failure of the telemetry send\<close>

text \<open>
  Claim C8, as stated, fails in its last part: line 185 drops the value returned by
  \<^verbatim>\<open>tlm_send_sensor_telem\<close>. In verbose mode, a pass whose send returns a failure code
  leaves the counter unchanged, prints nothing, and has the same result as the pass
  whose send succeeds.
\<close>

theorem send_failure_leaves_no_trace_counterexample:
  "g_verbose (main_startup True 0) \<and>
   send_raw_packet_returns (tick 32 1 11) \<noteq> EXIT_SUCCESS \<and>
   sampled (pass_events (pacsat_telem_h 32) ''/tmp/wod'' (tick 32 1 11) (main_startup True 0)) \<and>
   g_num_of_file_io_errors
     (pass_globals (pacsat_telem_h 32) ''/tmp/wod'' (tick 32 1 11) (main_startup True 0))
     = g_num_of_file_io_errors (main_startup True 0) \<and>
   filter is_printf (pass_events (pacsat_telem_h 32) ''/tmp/wod'' (tick 32 1 11) (main_startup True 0))
     = [] \<and>
   main_loop_body (pacsat_telem_h 32) ''/tmp/wod'' (tick 32 1 11) (main_startup True 0)
     = main_loop_body (pacsat_telem_h 32) ''/tmp/wod'' (tick 32 0 11) (main_startup True 0)"
proof (intro conjI)
  show "g_verbose (main_startup True 0)"
    by (simp add: main_startup_def)
  show "send_raw_packet_returns (tick 32 1 11) \<noteq> EXIT_SUCCESS"
    by (simp add: tick_def EXIT_SUCCESS_def)
  show "sampled (pass_events (pacsat_telem_h 32) ''/tmp/wod'' (tick 32 1 11) (main_startup True 0))"
    by (simp add: pass_sampled scenario_defs)
  show "g_num_of_file_io_errors
     (pass_globals (pacsat_telem_h 32) ''/tmp/wod'' (tick 32 1 11) (main_startup True 0))
     = g_num_of_file_io_errors (main_startup True 0)"
    by (simp add: pass_errors pass_stored scenario_defs)
  show "filter is_printf (pass_events (pacsat_telem_h 32) ''/tmp/wod'' (tick 32 1 11) (main_startup True 0))
     = []"
    by (simp add: scenario_defs pass_events_def main_loop_body_def
        store_wod_def sample_telem_def tlm_send_sensor_telem_def read_sensors_def Let_def)
  show "main_loop_body (pacsat_telem_h 32) ''/tmp/wod'' (tick 32 1 11) (main_startup True 0)
     = main_loop_body (pacsat_telem_h 32) ''/tmp/wod'' (tick 32 0 11) (main_startup True 0)"
    by (simp add: scenario_defs main_loop_body_def
        store_wod_def sample_telem_def tlm_send_sensor_telem_def read_sensors_def Let_def)
qed

text \<open>
  Claim C8, amended: the value returned by the telemetry send has no effect on the loop.
  The globals after a pass, the calls made in it (the appends and rotations of the WOD
  log among them) and the decision to exit are the same for every return code, and so is
  every run of the loop. The loop itself neither counts nor prints the failure.
\<close>

theorem send_return_code_ignored:
  "main_loop_body cfg p (a\<lparr> send_raw_packet_returns := r \<rparr>) g = main_loop_body cfg p a g \<and>
   main_loop cfg p (map (send_raw_packet_returns_update f) as) g = main_loop cfg p as g"
proof
  show "main_loop_body cfg p (a\<lparr> send_raw_packet_returns := r \<rparr>) g = main_loop_body cfg p a g"
    by (rule body_ignores_send_rc)
  show "main_loop cfg p (map (send_raw_packet_returns_update f) as) g = main_loop cfg p as g"
  proof (induction as arbitrary: g)
    case Nil
    show ?case by simp
  next
    case (Cons a as)
    show ?case
      by (simp add: body_ignores_send_rc Cons.IH split: prod.splits)
  qed
qed

section \<open>The time beacon\<close>

text \<open>
  Claim C9: \<^verbatim>\<open>tlm_send_time\<close> makes exactly one call of \<^verbatim>\<open>send_raw_packet\<close>, from
  ``AMSAT-11'' to ``TIME-1'' with payload type 0xF0, and returns its code. The payload
  has four bytes which, read least significant byte first, give the low 32 bits of the
  current time, hence the current time itself whenever it fits into 32 bits.
\<close>

theorem tlm_send_time_packet:
  "\<exists>status.
     tlm_send_time now rc =
       (rc, [Send_raw_packet \<lparr> from_callsign = ''AMSAT-11'', to_callsign = ''TIME-1'',
                               pid = 0xF0, data = Bytes status \<rparr>]) \<and>
     length status = 4 \<and>
     little_endian status = now mod 2 ^ 32 \<and>
     (0 \<le> now \<and> now < 2 ^ 32 \<longrightarrow> little_endian status = now)"
proof (intro exI conjI impI)
  let ?status = "[word_of_int (now AND 0xff), word_of_int (drop_bit 8 now AND 0xff),
                  word_of_int (drop_bit 16 now AND 0xff), word_of_int (drop_bit 24 now AND 0xff)] :: 8 word list"
  show "tlm_send_time now rc =
       (rc, [Send_raw_packet \<lparr> from_callsign = ''AMSAT-11'', to_callsign = ''TIME-1'',
                               pid = 0xF0, data = Bytes ?status \<rparr>])"
    by (simp add: tlm_send_time_def BROADCAST_CALLSIGN_def TIME_CALL_def PID_NO_PROTOCOL_def)
  show "length ?status = 4" by simp
  show "little_endian ?status = now mod 2 ^ 32"
    by (simp only: little_endian_status take_bit_eq_mod)
  assume "0 \<le> now \<and> now < 2 ^ 32"
  then have "take_bit 32 now = now" by (simp only: take_bit_int_eq_self)
  then show "little_endian ?status = now" by (simp only: little_endian_status)
qed

text \<open>Claim C9 at 6 January 2026, 00:00:00 UTC.\<close>

theorem tlm_send_time_packet_witness:
  "(0::int) \<le> 1767657600 \<and> (1767657600::int) < 2 ^ 32 \<and>
   (\<exists>status.
      tlm_send_time 1767657600 0 =
        (0, [Send_raw_packet \<lparr> from_callsign = ''AMSAT-11'', to_callsign = ''TIME-1'',
                                pid = 0xF0, data = Bytes status \<rparr>]) \<and>
      little_endian status = 1767657600)"
proof -
  have h: "(0::int) \<le> 1767657600 \<and> (1767657600::int) < 2 ^ 32" by simp
  from tlm_send_time_packet [of 1767657600 0] obtain status where
    s: "tlm_send_time 1767657600 0 =
        (0, [Send_raw_packet \<lparr> from_callsign = ''AMSAT-11'', to_callsign = ''TIME-1'',
                                pid = 0xF0, data = Bytes status \<rparr>])"
    and i: "0 \<le> (1767657600::int) \<and> (1767657600::int) < 2 ^ 32 \<longrightarrow> little_endian status = 1767657600"
    by blast
  from i h have "little_endian status = 1767657600" by (rule mp)
  with s h show ?thesis by blast
qed

section \<open>Start-up\<close>

text \<open>
  Claim C10: at start-up the last sample time is 0 and the last store time is the
  start-up time \<open>t0\<close>. If \<open>t0\<close> is greater than the (positive) sampling period and the
  clock does not go backwards, the first pass of the loop samples and broadcasts. Every
  store event of a run happens at a time more than a storing period after \<open>t0\<close>.
\<close>

theorem startup_asymmetry:
  "last_time_checked_period_to_sample_telem (main_startup v t0) = 0 \<and>
   last_time_checked_wod (main_startup v t0) = t0 \<and>
   (0 < PERIOD_TO_SAMPLE_TELEM_IN_SECONDS cfg \<and> PERIOD_TO_SAMPLE_TELEM_IN_SECONDS cfg < t0 \<and>
    t0 \<le> time_now a \<longrightarrow>
      sampled (pass_events cfg p a (main_startup v t0)) \<and>
      sampled (snd (hd (fst (main_loop cfg p (a # as) (main_startup v t0)))))) \<and>
   (\<forall>t \<in> set (store_times (fst (main_loop cfg p (a # as) (main_startup v t0)))).
      PERIOD_TO_STORE_WOD_IN_SECONDS cfg < t - t0)"
proof (intro conjI impI)
  show "last_time_checked_period_to_sample_telem (main_startup v t0) = 0"
    by (simp add: main_startup_def)
  show w: "last_time_checked_wod (main_startup v t0) = t0"
    by (simp add: main_startup_def)
  show "\<forall>t \<in> set (store_times (fst (main_loop cfg p (a # as) (main_startup v t0)))).
      PERIOD_TO_STORE_WOD_IN_SECONDS cfg < t - t0"
    using store_times_gap [of cfg p "a # as" "main_startup v t0"] by (simp only: w)
next
  assume h: "0 < PERIOD_TO_SAMPLE_TELEM_IN_SECONDS cfg \<and> PERIOD_TO_SAMPLE_TELEM_IN_SECONDS cfg < t0 \<and>
    t0 \<le> time_now a"
  then show s: "sampled (pass_events cfg p a (main_startup v t0))"
    by (simp add: pass_sampled main_startup_def)
  then show "sampled (snd (hd (fst (main_loop cfg p (a # as) (main_startup v t0)))))"
    by (simp add: run_trace_Cons del: main_loop.simps)
qed

text \<open>
  Claim C10 at the values of the header, started at time 1000: the first pass samples;
  the stores of a run that reads the clock at 1000, 1060, 1061, 1062, 1122 and 1123
  happen at 1061 and 1122.
\<close>

theorem startup_asymmetry_witness:
  "0 < PERIOD_TO_SAMPLE_TELEM_IN_SECONDS (pacsat_telem_h 32) \<and>
   PERIOD_TO_SAMPLE_TELEM_IN_SECONDS (pacsat_telem_h 32) < 1000 \<and>
   1000 \<le> time_now (tick 32 0 1000) \<and>
   sampled (pass_events (pacsat_telem_h 32) ''/tmp/wod'' (tick 32 0 1000) (main_startup False 1000)) \<and>
   store_times (fst (main_loop (pacsat_telem_h 32) ''/tmp/wod''
                       (map (tick 32 0) [1000, 1060, 1061, 1062, 1122,1123])
                       (main_startup False 1000))) = [1061, 1122]"
proof -
  have h: "0 < PERIOD_TO_SAMPLE_TELEM_IN_SECONDS (pacsat_telem_h 32) \<and>
           PERIOD_TO_SAMPLE_TELEM_IN_SECONDS (pacsat_telem_h 32) < 1000 \<and>
           1000 \<le> time_now (tick 32 0 1000)"
    by (simp add: pacsat_telem_h_def tick_def)
  have st: "store_times (fst (main_loop (pacsat_telem_h 32) ''/tmp/wod''
                       (map (tick 32 0) [1000, 1060, 1061, 1062, 1122, 1123])
                       (main_startup False 1000))) = [1061, 1122]"
    by code_simp
  from h startup_asymmetry
          [of False 1000 "pacsat_telem_h 32" "tick 32 0 1000" "''/tmp/wod''"
              "map (tick 32 0) [1060, 1061, 1062, 1122, 1123]"]
  have "sampled (pass_events (pacsat_telem_h 32) ''/tmp/wod'' (tick 32 0 1000) (main_startup False 1000))"
    by blast
  with h st show ?thesis by simp
qed

end
